theory Spec2Isabelle
  imports Complex_Main
begin

section \<open>Values\<close>

text \<open>
  Prices are Python floats. They are modelled as exact reals together with the one
  special value the code can produce and that changes control flow: NaN (the
  rolling mean of a series shorter than its window). Rounding error of the binary
  representation and infinities are not modelled: a product or quotient here is
  the exact one, where Python returns the nearest double. The difference is of
  the order of one part in \<open>2^53\<close>, but it decides which way \<open>round\<close> goes when
  the exact product lies on a rounding tie. With a moving average of 5005.0 and a
  depeg percentage of 1 the exact product is 4954.95, the float product lies just
  below it, and Python's target price is 4954.9 where the exact one rounds to
  4955.0. No general statement below depends on which of the two neighbouring
  tenths a target price is: what is stated is the control flow, the calls, the
  assignments and bounds that hold for either neighbour. The concrete prices
  used (a moving average of 100 with a depeg percentage of 4, hence 96) are the
  same in both arithmetics.
\<close>

datatype pyfloat = Num real | NaN

text \<open>Exceptions that a tick can meet; \<open>ApiError\<close> is whatever the exchange library raises.\<close>

datatype error =
    ApiError string
  | CancelRejected "string list"
  | KeyError
  | IndexError
  | TypeError
  | ZeroDivisionError

text \<open>
  \<open>a * b\<close> where \<open>b\<close> is a finite number: NaN is absorbing. The product is exact
  (see above).
\<close>

fun fmul :: "pyfloat \<Rightarrow> real \<Rightarrow> pyfloat" where
  "fmul (Num a) b = Num (a * b)"
| "fmul NaN b = NaN"

text \<open>\<open>a / b\<close>: Python raises ZeroDivisionError for a zero divisor, also when \<open>a\<close> is NaN.\<close>

fun fdiv :: "pyfloat \<Rightarrow> real \<Rightarrow> error + pyfloat" where
  "fdiv a b =
     (if b = 0 then Inl ZeroDivisionError
      else (case a of Num x \<Rightarrow> Inr (Num (x / b)) | NaN \<Rightarrow> Inr NaN))"

text \<open>\<open>a >= b\<close>: false as soon as one side is NaN.\<close>

fun fge :: "pyfloat \<Rightarrow> pyfloat \<Rightarrow> bool" where
  "fge (Num a) (Num b) = (b \<le> a)"
| "fge _ _ = False"

text \<open>\<open>a != b\<close>: true as soon as one side is NaN.\<close>

fun fne :: "pyfloat \<Rightarrow> pyfloat \<Rightarrow> bool" where
  "fne (Num a) (Num b) = (a \<noteq> b)"
| "fne _ _ = True"

text \<open>
  Python's \<open>round(x, 1)\<close>: the nearest multiple of one tenth, a tie going to the
  even multiple; \<open>round(nan, 1)\<close> is NaN.
\<close>

definition round_half_even :: "real \<Rightarrow> int" where
  "round_half_even x =
     (let f = \<lfloor>x\<rfloor>; d = x - of_int f
      in if d < 1 / 2 then f
         else if 1 / 2 < d then f + 1
         else if even f then f else f + 1)"

definition py_round1 :: "real \<Rightarrow> real" where
  "py_round1 x = of_int (round_half_even (x * 10)) / 10"

section \<open>The exchange\<close>

text \<open>
  The calls that reach the exchange library, in the order they are made during one
  tick. The strategy's behaviour is a function of the answers, and the answers may
  depend on everything requested before in the same tick.
\<close>

datatype call =
    GetAccountBalance
  | GetOhlcData string int
  | AddStandardOrder string string real pyfloat bool
  | QueryOrdersInfo string
  | CancelOrder string

text \<open>An order acknowledgement is a dictionary; a validated order carries no \<open>txid\<close>.\<close>

record order_ack =
  txid :: "string list option"

text \<open>
  One entry of the order query. A missing key is \<open>None\<close>; so is a price that
  \<open>float()\<close> cannot read.
\<close>

record order_info =
  status :: "string option"
  price :: "pyfloat option"

record kraken =
  kraken_get_account_balance :: "call list \<Rightarrow> error + (string \<rightharpoonup> pyfloat)"
  get_ohlc_data :: "call list \<Rightarrow> string \<Rightarrow> int \<Rightarrow> error + (string \<rightharpoonup> real list)"
  add_standard_order ::
    "call list \<Rightarrow> string \<Rightarrow> string \<Rightarrow> real \<Rightarrow> pyfloat \<Rightarrow> bool \<Rightarrow> error + order_ack"
  query_orders_info :: "call list \<Rightarrow> string \<Rightarrow> error + (string \<rightharpoonup> order_info)"
  query_private_cancel :: "call list \<Rightarrow> string \<Rightarrow> error + string list"

text \<open>A computation that may raise, and that extends the list of calls made so far.\<close>

type_synonym 'a io = "call list \<Rightarrow> (error + 'a) \<times> call list"

subsection \<open>KrakenClient\<close>

text \<open>
  Each method forwards to the exchange library and re-raises what it raises. The
  balance is taken as the dictionary from currency to amount that the strategy
  reads, the price history as the data frame's columns.
\<close>

definition get_account_balance :: "kraken \<Rightarrow> (string \<rightharpoonup> pyfloat) io" where
  "get_account_balance k tr = (kraken_get_account_balance k tr, tr @ [GetAccountBalance])"

definition get_historical_data :: "kraken \<Rightarrow> string \<Rightarrow> int \<Rightarrow> (string \<rightharpoonup> real list) io" where
  "get_historical_data k pr interval tr =
     (get_ohlc_data k tr pr interval, tr @ [GetOhlcData pr interval])"

definition place_limit_order ::
  "kraken \<Rightarrow> string \<Rightarrow> real \<Rightarrow> pyfloat \<Rightarrow> string \<Rightarrow> bool \<Rightarrow> order_ack io" where
  "place_limit_order k pr vol p side validate tr =
     (add_standard_order k tr pr side vol p validate,
      tr @ [AddStandardOrder pr side vol p validate])"

text \<open>A non-empty \<open>error\<close> list in the response is raised as an exception.\<close>

definition cancel_order :: "kraken \<Rightarrow> string \<Rightarrow> unit io" where
  "cancel_order k order_id tr =
     ((case query_private_cancel k tr order_id of
         Inl e \<Rightarrow> Inl e
       | Inr errs \<Rightarrow> if errs \<noteq> [] then Inl (CancelRejected errs) else Inr ()),
      tr @ [CancelOrder order_id])"

definition get_order_details :: "kraken \<Rightarrow> string \<Rightarrow> (string \<rightharpoonup> order_info) io" where
  "get_order_details k t tr = (query_orders_info k tr t, tr @ [QueryOrdersInfo t])"

text \<open>Cancel, then place again; the second step is skipped when the first raises.\<close>

definition update_limit_order ::
  "kraken \<Rightarrow> string \<Rightarrow> real \<Rightarrow> pyfloat \<Rightarrow> string \<Rightarrow> string \<Rightarrow> unit io" where
  "update_limit_order k pr vol new_price order_id side tr =
     (case cancel_order k order_id tr of
        (Inl e, tr1) \<Rightarrow> (Inl e, tr1)
      | (Inr _, tr1) \<Rightarrow>
          (case place_limit_order k pr vol new_price side False tr1 of
             (Inl e, tr2) \<Rightarrow> (Inl e, tr2)
           | (Inr _, tr2) \<Rightarrow> (Inr (), tr2)))"

section \<open>Indicator\<close>

text \<open>
  \<open>series.rolling(window=w).mean()\<close> of the data-frame library, with its default
  minimum number of observations (the window length): position \<open>i\<close> holds NaN
  until \<open>w\<close> samples are available, then the mean of the samples \<open>i + 1 - w .. i\<close>.
  A window of length zero has no observation, hence NaN everywhere.
\<close>

definition rolling_mean :: "nat \<Rightarrow> real list \<Rightarrow> pyfloat list" where
  "rolling_mean w xs =
     map (\<lambda>i. if w = 0 \<or> i + 1 < w then NaN
              else Num (sum_list (take w (drop (i + 1 - w) xs)) / real w))
         [0..<length xs]"

text \<open>\<open>series.iloc[-1]\<close>: the last element, IndexError on an empty series.\<close>

definition iloc_last :: "'a list \<Rightarrow> error + 'a" where
  "iloc_last ys = (if ys = [] then Inl IndexError else Inr (last ys))"

definition calculate_sma :: "kraken \<Rightarrow> string \<Rightarrow> int \<Rightarrow> nat \<Rightarrow> pyfloat io" where
  "calculate_sma k pr timeframe len tr =
     (case get_historical_data k pr timeframe tr of
        (Inl e, tr1) \<Rightarrow> (Inl e, tr1)
      | (Inr ohlc_data, tr1) \<Rightarrow>
          (case ohlc_data ''close'' of
             None \<Rightarrow> (Inl KeyError, tr1)
           | Some closes \<Rightarrow>
               (case iloc_last (rolling_mean len closes) of
                  Inl e \<Rightarrow> (Inl e, tr1)
                | Inr sma \<Rightarrow> (Inr sma, tr1))))"

section \<open>LimitStrategy\<close>

record config =
  pair :: string
  sma_length :: nat
  depeg_percentage :: real
  volume :: real
  base_currency :: string

record strategy =
  config :: config
  test_mode :: bool
  active_order :: "string option"
  entry_sma :: "pyfloat option"
  in_position :: bool

definition init_strategy :: "config \<Rightarrow> bool \<Rightarrow> strategy" where
  "init_strategy c tm =
     \<lparr>config = c, test_mode = tm, active_order = None, entry_sma = None, in_position = False\<rparr>"

text \<open>Truth value of \<open>self.active_order\<close>: \<open>None\<close> and the empty string are false.\<close>

fun truthy :: "string option \<Rightarrow> bool" where
  "truthy None = False"
| "truthy (Some s) = (s \<noteq> [])"

fun format_price :: "pyfloat \<Rightarrow> pyfloat" where
  "format_price (Num x) = Num (py_round1 x)"
| "format_price NaN = NaN"

definition calculate_target_price :: "kraken \<Rightarrow> strategy \<Rightarrow> pyfloat io" where
  "calculate_target_price k s tr =
     (case calculate_sma k (pair (config s)) 60 (sma_length (config s)) tr of
        (Inl e, tr1) \<Rightarrow> (Inl e, tr1)
      | (Inr sma, tr1) \<Rightarrow>
          (Inr (format_price (fmul sma (1 - depeg_percentage (config s) / 100))), tr1))"

text \<open>Every exception inside the balance check is turned into the answer False.\<close>

definition check_balance_for_order :: "kraken \<Rightarrow> strategy \<Rightarrow> call list \<Rightarrow> bool \<times> call list" where
  "check_balance_for_order k s tr =
     (if test_mode s then (True, tr)
      else
        (case get_account_balance k tr of
           (Inl e, tr1) \<Rightarrow> (False, tr1)
         | (Inr balance, tr1) \<Rightarrow>
             (case calculate_target_price k s tr1 of
                (Inl e, tr2) \<Rightarrow> (False, tr2)
              | (Inr tp, tr2) \<Rightarrow>
                  (fge (case balance (base_currency (config s)) of
                          None \<Rightarrow> Num 0 | Some b \<Rightarrow> b)
                       (fmul tp (volume (config s))),
                   tr2))))"

text \<open>\<open>order['txid'][0]\<close>\<close>

definition first_txid :: "order_ack \<Rightarrow> error + string" where
  "first_txid order =
     (case txid order of
        None \<Rightarrow> Inl KeyError
      | Some [] \<Rightarrow> Inl IndexError
      | Some (x # _) \<Rightarrow> Inr x)"

text \<open>
  The body of the \<open>try\<close> block of \<open>execute\<close>. The result is the exception, if one
  was raised, the strategy object as the assignments made up to that point left
  it, and the calls made.
\<close>

definition entry_logic :: "kraken \<Rightarrow> strategy \<Rightarrow> (error + unit) \<times> strategy \<times> call list" where
  "entry_logic k s =
     (case check_balance_for_order k s [] of
        (False, tr) \<Rightarrow> (Inr (), s, tr)
      | (True, tr) \<Rightarrow>
          (case calculate_target_price k s tr of
             (Inl e, tr1) \<Rightarrow> (Inl e, s, tr1)
           | (Inr target_price, tr1) \<Rightarrow>
               (case place_limit_order k (pair (config s)) (volume (config s)) target_price
                       ''buy'' (test_mode s) tr1 of
                  (Inl e, tr2) \<Rightarrow> (Inl e, s, tr2)
                | (Inr order, tr2) \<Rightarrow>
                    if test_mode s then (Inr (), s, tr2)
                    else
                      (case first_txid order of
                         Inl e \<Rightarrow> (Inl e, s, tr2)
                       | Inr oid \<Rightarrow>
                           (let s1 = s\<lparr>active_order := Some oid\<rparr> in
                            case fdiv target_price (1 - depeg_percentage (config s) / 100) of
                              Inl e \<Rightarrow> (Inl e, s1, tr2)
                            | Inr v \<Rightarrow> (Inr (), s1\<lparr>entry_sma := Some v\<rparr>, tr2))))))"

definition order_management ::
  "kraken \<Rightarrow> strategy \<Rightarrow> string \<Rightarrow> (error + unit) \<times> strategy \<times> call list" where
  "order_management k s ao =
     (case get_order_details k ao [] of
        (Inl e, tr) \<Rightarrow> (Inl e, s, tr)
      | (Inr order_details, tr) \<Rightarrow>
          (case order_details ao of
             None \<Rightarrow> (Inl KeyError, s, tr)
           | Some info \<Rightarrow>
               (case status info of
                  None \<Rightarrow> (Inl KeyError, s, tr)
                | Some st \<Rightarrow>
                    if st = ''closed'' then
                      if \<not> in_position s then
                        (let s1 = s\<lparr>in_position := True\<rparr> in
                         case entry_sma s1 of
                           None \<Rightarrow> (Inl TypeError, s1, tr)
                         | Some e \<Rightarrow>
                             (case place_limit_order k (pair (config s)) (volume (config s))
                                     (format_price e) ''sell'' False tr of
                                (Inl err, tr1) \<Rightarrow> (Inl err, s1, tr1)
                              | (Inr sell_order, tr1) \<Rightarrow>
                                  (case first_txid sell_order of
                                     Inl err \<Rightarrow> (Inl err, s1, tr1)
                                   | Inr oid \<Rightarrow> (Inr (), s1\<lparr>active_order := Some oid\<rparr>, tr1))))
                      else
                        (Inr (),
                         s\<lparr>in_position := False, active_order := None, entry_sma := None\<rparr>, tr)
                    else if \<not> in_position s then
                      (case calculate_target_price k s tr of
                         (Inl e, tr1) \<Rightarrow> (Inl e, s, tr1)
                       | (Inr new_target, tr1) \<Rightarrow>
                           (case price info of
                              None \<Rightarrow> (Inl KeyError, s, tr1)
                            | Some current_price \<Rightarrow>
                                if fne new_target current_price then
                                  (case update_limit_order k (pair (config s))
                                          (volume (config s)) new_target ao ''buy'' tr1 of
                                     (Inl e, tr2) \<Rightarrow> (Inl e, s, tr2)
                                   | (Inr _, tr2) \<Rightarrow>
                                       (Inr (), s\<lparr>active_order := None\<rparr>, tr2))
                                else (Inr (), s, tr1)))
                    else (Inr (), s, tr))))"

definition execute_body :: "kraken \<Rightarrow> strategy \<Rightarrow> (error + unit) \<times> strategy \<times> call list" where
  "execute_body k s =
     (if \<not> in_position s \<and> \<not> truthy (active_order s) then entry_logic k s
      else if truthy (active_order s) \<and> \<not> test_mode s then
        (case active_order s of
           None \<Rightarrow> (Inr (), s, [])
         | Some ao \<Rightarrow> order_management k s ao)
      else (Inr (), s, []))"

text \<open>
  \<open>execute\<close>: the \<open>except Exception\<close> clause logs the exception and returns, so
  the caller sees the strategy object and the calls, never the exception.
\<close>

definition execute :: "kraken \<Rightarrow> strategy \<Rightarrow> strategy \<times> call list" where
  "execute k s = (case execute_body k s of (_, s', tr) \<Rightarrow> (s', tr))"

section \<open>The polling loop\<close>

text \<open>
  The main loop calls \<open>execute\<close> once per poll interval until shutdown. The list
  holds the exchange as it behaves during each successive tick; the result is the
  strategy object after the last tick and all calls made.
\<close>

fun trading_loop :: "kraken list \<Rightarrow> strategy \<Rightarrow> strategy \<times> call list" where
  "trading_loop [] s = (s, [])"
| "trading_loop (k # ks) s =
     (case execute k s of
        (s1, tr) \<Rightarrow> (case trading_loop ks s1 of (s2, tr') \<Rightarrow> (s2, tr @ tr')))"

text \<open>
  Calls that commit something at the exchange or belong to order management: a
  live (not validate-only) order, an order query, a cancellation.
\<close>

fun commits :: "call \<Rightarrow> bool" where
  "commits (AddStandardOrder _ _ _ _ validate) = (\<not> validate)"
| "commits (QueryOrdersInfo _) = True"
| "commits (CancelOrder _) = True"
| "commits _ = False"


section \<open>Test fixtures\<close>

text \<open>
  The configuration and the mocked client of the strategy tests: a balance of
  1000 ZUSD, a fixed closing-price series, a fixed answer to every order query and
  to every order placement, and cancellations that succeed.
\<close>

definition mock_config :: config where
  "mock_config =
     \<lparr>pair = ''XXBTZUSD'', sma_length = 25, depeg_percentage = 4, volume = 1 / 1000,
      base_currency = ''ZUSD''\<rparr>"


definition mock_kraken ::
  "real list \<Rightarrow> (string \<rightharpoonup> order_info) \<Rightarrow> (error + order_ack) \<Rightarrow> kraken" where
  "mock_kraken closes details ack =
     \<lparr>kraken_get_account_balance = (\<lambda>_. Inr [''ZUSD'' \<mapsto> Num 1000]),
      get_ohlc_data = (\<lambda>_ _ _. Inr [''close'' \<mapsto> closes]),
      add_standard_order = (\<lambda>_ _ _ _ _ _. ack),
      query_orders_info = (\<lambda>_ _. Inr details),
      query_private_cancel = (\<lambda>_ _. Inr [])\<rparr>"

definition buy_pending :: strategy where
  "buy_pending =
     \<lparr>config = mock_config, test_mode = False, active_order = Some ''BUY1'',
      entry_sma = Some (Num 100), in_position = False\<rparr>"

definition order_report :: "string \<Rightarrow> real \<Rightarrow> (string \<rightharpoonup> order_info)" where
  "order_report st p = [''BUY1'' \<mapsto> \<lparr>status = Some st, price = Some (Num p)\<rparr>]"

definition no_orders :: "string \<rightharpoonup> order_info" where
  "no_orders = Map.empty"

definition accepted :: "string \<Rightarrow> error + order_ack" where
  "accepted oid = Inr \<lparr>txid = Some [oid]\<rparr>"

definition validated :: "error + order_ack" where
  "validated = Inr \<lparr>txid = None\<rparr>"

definition unavailable :: "error + order_ack" where
  "unavailable = Inl (ApiError ''EService:Unavailable'')"

section \<open>Rounding\<close>

lemma round_half_even_close: "\<bar>real_of_int (round_half_even y) - y\<bar> \<le> 1 / 2"
proof -
  have "real_of_int \<lfloor>y\<rfloor> \<le> y" "y < real_of_int \<lfloor>y\<rfloor> + 1" by linarith+
  then show ?thesis
    by (auto simp: round_half_even_def Let_def)
qed

lemma py_round1_close: "\<bar>py_round1 x - x\<bar> \<le> 1 / 20"
  using round_half_even_close [of "x * 10"] by (simp add: py_round1_def field_simps)

lemma py_round1_tenth:
  "\<exists>n::int. py_round1 x = of_int n / 10 \<and> \<bar>of_int n / 10 - x\<bar> \<le> 1 / 20"
  using py_round1_close [of x] unfolding py_round1_def by blast


lemma py_round1_eighth: "py_round1 (801 / 8) = 1001 / 10"
  by (simp add: py_round1_def round_half_even_def)

lemma py_round1_96: "py_round1 96 = 96"
  by (simp add: py_round1_def round_half_even_def)

lemma py_round1_100: "py_round1 100 = 100"
  by (simp add: py_round1_def round_half_even_def)

lemma fdiv_nonzero: "b \<noteq> 0 \<Longrightarrow> fdiv a b \<noteq> Inl e"
  by (simp split: pyfloat.splits)

section \<open>The moving average\<close>

lemma rolling_mean_Nil_iff: "rolling_mean w xs = [] \<longleftrightarrow> xs = []"
  by (simp add: rolling_mean_def)

lemma last_rolling_mean:
  assumes "1 \<le> w" "w \<le> length xs"
  shows "last (rolling_mean w xs) = Num (sum_list (drop (length xs - w) xs) / real w)"
proof -
  from assms have n: "0 < length xs" by linarith
  then have "[0..<length xs] \<noteq> []" by simp
  then have "last (rolling_mean w xs) =
      (\<lambda>i. if w = 0 \<or> i + 1 < w then NaN
              else Num (sum_list (take w (drop (i + 1 - w) xs)) / real w)) (length xs - 1)"
    unfolding rolling_mean_def using n by (simp add: last_map)
  also have "\<dots> = Num (sum_list (take w (drop (length xs - w) xs)) / real w)"
    using assms n by simp
  also have "take w (drop (length xs - w) xs) = drop (length xs - w) xs"
    using assms by simp
  finally show ?thesis .
qed

lemma last_rolling_mean_short:
  assumes "xs \<noteq> []" "length xs < w"
  shows "last (rolling_mean w xs) = NaN"
proof -
  from assms have n: "0 < length xs" by simp
  then have "[0..<length xs] \<noteq> []" by simp
  then show ?thesis
    unfolding rolling_mean_def using n assms by (simp add: last_map)
qed

lemma snd_calculate_sma: "snd (calculate_sma k pr tf w tr) = tr @ [GetOhlcData pr tf]"
  by (simp add: calculate_sma_def get_historical_data_def split: sum.splits option.splits)

lemma mock_sma:
  "calculate_sma (mock_kraken (replicate 26 100) details ack) pr tf 25 tr =
     (Inr (Num 100), tr @ [GetOhlcData pr tf])"
  by (simp add: calculate_sma_def get_historical_data_def mock_kraken_def iloc_last_def
      rolling_mean_Nil_iff last_rolling_mean sum_list_replicate)

text \<open>
  C2, as the code has it. A series that is not empty but shorter than the window
  does not make \<open>calculate_sma\<close> fail: the call returns NaN as an ordinary result.
  Only the empty series raises, and what it raises is the IndexError of reading
  the last element.
\<close>

theorem calculate_sma_short_series:
  assumes "get_ohlc_data k tr pr tf = Inr ohlc" and "ohlc ''close'' = Some closes"
    and "length closes < w"
  shows "calculate_sma k pr tf w tr =
           (if closes = [] then Inl IndexError else Inr NaN, tr @ [GetOhlcData pr tf])"
  using assms
  by (simp add: calculate_sma_def get_historical_data_def iloc_last_def rolling_mean_Nil_iff
      last_rolling_mean_short)

theorem calculate_sma_short_series_witness:
  "length (replicate 3 (100::real)) < 5
   \<and> calculate_sma (mock_kraken (replicate 3 100) no_orders validated) ''XXBTZUSD'' 60 5 [] =
       (Inr NaN, [GetOhlcData ''XXBTZUSD'' 60])"
  using calculate_sma_short_series
    [of "mock_kraken (replicate 3 100) no_orders validated" "[]" "''XXBTZUSD''" 60
        "[''close'' \<mapsto> replicate 3 100]" "replicate 3 100" 5]
  by (simp add: mock_kraken_def)

text \<open>
  C2, as the claim states it, fails: ten samples and a window of 25 give the
  result NaN, not an error.
\<close>

theorem calculate_sma_short_series_counterexample:
  "fst (calculate_sma (mock_kraken (replicate 10 100) no_orders validated) ''XXBTZUSD'' 60 25 [])
     = Inr NaN"
  by (simp add: calculate_sma_def get_historical_data_def mock_kraken_def iloc_last_def
      rolling_mean_Nil_iff last_rolling_mean_short)

text \<open>
  C3. When the series has at least \<open>w\<close> samples and \<open>w\<close> is at least one,
  \<open>calculate_sma\<close> returns the sum of the last \<open>w\<close> closing prices divided by
  \<open>w\<close>, after one request for the price history.
\<close>

theorem calculate_sma_mean:
  assumes "get_ohlc_data k tr pr tf = Inr ohlc" and "ohlc ''close'' = Some closes"
    and "1 \<le> w" and "w \<le> length closes"
  shows "calculate_sma k pr tf w tr =
           (Inr (Num (sum_list (drop (length closes - w) closes) / real w)),
            tr @ [GetOhlcData pr tf])"
proof -
  from assms have "closes \<noteq> []" by auto
  then have "iloc_last (rolling_mean w closes) = Inr (last (rolling_mean w closes))"
    by (simp add: iloc_last_def rolling_mean_Nil_iff)
  with assms show ?thesis
    by (simp add: calculate_sma_def get_historical_data_def last_rolling_mean)
qed

theorem calculate_sma_mean_witness:
  "(1::nat) \<le> 25 \<and> 25 \<le> length (replicate 26 (100::real))
   \<and> calculate_sma (mock_kraken (replicate 26 100) no_orders validated) ''XXBTZUSD'' 60 25 [] =
       (Inr (Num 100), [GetOhlcData ''XXBTZUSD'' 60])"
  using calculate_sma_mean
    [of "mock_kraken (replicate 26 100) no_orders validated" "[]" "''XXBTZUSD''" 60
        "[''close'' \<mapsto> replicate 26 100]" "replicate 26 100" 25]
  by (simp add: mock_kraken_def sum_list_replicate)

section \<open>The target price\<close>

lemma snd_calculate_target_price:
  "snd (calculate_target_price k s tr) = tr @ [GetOhlcData (pair (config s)) 60]"
  using snd_calculate_sma [of k "pair (config s)" 60 "sma_length (config s)" tr]
  by (auto simp: calculate_target_price_def split: prod.splits sum.splits)

lemma calculate_target_price_trace:
  "calculate_target_price k s tr = (r, tr1) \<Longrightarrow> tr1 = tr @ [GetOhlcData (pair (config s)) 60]"
  using snd_calculate_target_price [of k s tr] by simp

lemma mock_target_price:
  assumes "config s = mock_config"
  shows "calculate_target_price (mock_kraken (replicate 26 100) details ack) s tr =
           (Inr (Num 96), tr @ [GetOhlcData ''XXBTZUSD'' 60])"
  using assms
  by (simp add: calculate_target_price_def mock_config_def mock_sma py_round1_96)

section \<open>One tick\<close>




text \<open>
  When the body of a tick raises, the strategy object is the one before the tick,
  or the one before the tick with \<open>in_position\<close> set: the assignment that
  precedes the placement of the sell order.
\<close>

lemma entry_logic_failure:
  assumes "entry_logic k s = (Inl e, s', tr)" and "depeg_percentage (config s) \<noteq> 100"
  shows "s' = s"
proof -
  have nz: "fdiv a (1 - depeg_percentage (config s) / 100) \<noteq> Inl e" for a e
    using assms(2) by (intro fdiv_nonzero) simp
  show ?thesis
    using assms(1) nz
    by (simp add: entry_logic_def Let_def del: fdiv.simps
        split: prod.splits sum.splits option.splits bool.splits if_splits)
qed

lemma order_management_failure:
  assumes "order_management k s ao = (Inl e, s', tr)"
  shows "s' = s \<or> (\<not> in_position s \<and> s' = s\<lparr>in_position := True\<rparr>)"
  using assms
  by (simp add: order_management_def Let_def
      split: prod.splits sum.splits option.splits if_splits)

lemma execute_body_failure:
  assumes "execute_body k s = (Inl e, s', tr)" and "depeg_percentage (config s) \<noteq> 100"
  shows "s' = s \<or> (\<not> in_position s \<and> s' = s\<lparr>in_position := True\<rparr>)"
  using assms entry_logic_failure [of k s e s' tr]
  by (auto simp: execute_body_def dest: order_management_failure split: if_splits option.splits)

text \<open>
  C1, evaluated on the code. The strategy holds the buy order BUY1, the exchange
  reports it closed and then refuses the sell order. The exception is raised
  inside the tick and the caller does not see it, but the tick has already set
  \<open>in_position\<close>: the trading state after the tick is not the state before.
\<close>

theorem sell_failure_mutates_state:
  "execute_body (mock_kraken (replicate 26 100) (order_report ''closed'' 96) unavailable)
     buy_pending =
     (Inl (ApiError ''EService:Unavailable''), buy_pending\<lparr>in_position := True\<rparr>,
      [QueryOrdersInfo ''BUY1'', AddStandardOrder ''XXBTZUSD'' ''sell'' (1 / 1000) (Num 100) False])
   \<and> in_position (fst (execute
        (mock_kraken (replicate 26 100) (order_report ''closed'' 96) unavailable) buy_pending))
   \<and> \<not> in_position buy_pending"
  by (simp add: execute_def execute_body_def order_management_def get_order_details_def
      place_limit_order_def mock_kraken_def buy_pending_def order_report_def unavailable_def
      mock_config_def py_round1_100)



text \<open>
  C5. The strategy is live and holds a buy order that the exchange reports as
  closed, and the exchange accepts the sell order with the id \<open>oid\<close>. Then the
  tick sets \<open>in_position\<close>, places one live sell order for the configured volume
  and stores \<open>oid\<close> as the active order; the active order has changed whenever
  \<open>oid\<close> is not the id of the buy order. The price of the sell order is
  \<open>entry_sma\<close> rounded to one decimal: when \<open>entry_sma\<close> is the number \<open>x\<close>, the
  price is a whole number of tenths at most half a tenth away from \<open>x\<close>.
\<close>

theorem execute_buy_filled_places_sell:
  assumes "active_order s = Some ao" and "ao \<noteq> []" and "\<not> in_position s" and "\<not> test_mode s"
    and "entry_sma s = Some e"
    and "query_orders_info k [] ao = Inr details" and "details ao = Some info"
    and "status info = Some ''closed''"
    and "add_standard_order k [QueryOrdersInfo ao] (pair (config s)) ''sell''
           (volume (config s)) (format_price e) False = Inr sell_order"
    and "txid sell_order = Some (oid # rest)"
  shows "execute k s =
           (s\<lparr>in_position := True, active_order := Some oid\<rparr>,
            [QueryOrdersInfo ao,
             AddStandardOrder (pair (config s)) ''sell'' (volume (config s)) (format_price e) False])
         \<and> (oid \<noteq> ao \<longrightarrow> active_order (fst (execute k s)) \<noteq> active_order s)
         \<and> (\<forall>x. e = Num x \<longrightarrow>
               (\<exists>n::int. format_price e = Num (of_int n / 10) \<and> \<bar>of_int n / 10 - x\<bar> \<le> 1 / 20))"
proof -
  have r: "\<exists>n::int. format_price e = Num (of_int n / 10) \<and> \<bar>of_int n / 10 - x\<bar> \<le> 1 / 20"
    if "e = Num x" for x
    using that py_round1_tenth [of x] by simp
  have x: "execute k s =
           (s\<lparr>in_position := True, active_order := Some oid\<rparr>,
            [QueryOrdersInfo ao,
             AddStandardOrder (pair (config s)) ''sell'' (volume (config s)) (format_price e) False])
         \<and> (oid \<noteq> ao \<longrightarrow> active_order (fst (execute k s)) \<noteq> active_order s)"
    using assms
    by (simp add: execute_def execute_body_def order_management_def get_order_details_def
        place_limit_order_def first_txid_def)
  from x r show ?thesis by blast
qed

theorem execute_buy_filled_places_sell_witness:
  "''SELL1'' \<noteq> ''BUY1''
   \<and> execute (mock_kraken (replicate 26 100) (order_report ''closed'' 96) (accepted ''SELL1''))
       (buy_pending\<lparr>entry_sma := Some (Num (801 / 8))\<rparr>) =
       (buy_pending\<lparr>entry_sma := Some (Num (801 / 8)), in_position := True,
                     active_order := Some ''SELL1''\<rparr>,
        [QueryOrdersInfo ''BUY1'',
         AddStandardOrder ''XXBTZUSD'' ''sell'' (1 / 1000) (Num (1001 / 10)) False])
   \<and> (\<exists>n::int. format_price (Num (801 / 8)) = Num (of_int n / 10)
         \<and> \<bar>of_int n / 10 - 801 / 8\<bar> \<le> (1::real) / 20)"
  using execute_buy_filled_places_sell
    [of "buy_pending\<lparr>entry_sma := Some (Num (801 / 8))\<rparr>" "''BUY1''" "Num (801 / 8)"
        "mock_kraken (replicate 26 100) (order_report ''closed'' 96) (accepted ''SELL1'')"
        "order_report ''closed'' 96" "\<lparr>status = Some ''closed'', price = Some (Num 96)\<rparr>"
        "\<lparr>txid = Some [''SELL1'']\<rparr>" "''SELL1''" "[]"]
  by (simp add: buy_pending_def mock_kraken_def order_report_def accepted_def mock_config_def
      py_round1_eighth)

text \<open>
  C6. The strategy is live and holds a buy order whose reported status is not
  closed; the target price is recomputed after the order query. When the new
  target equals the resting price under \<open>!=\<close>, the tick makes no further call and
  changes nothing. When it differs, and the exchange accepts the cancellation and
  the new order, the tick cancels the resting order, places a live buy order at
  the new target and sets the active order to \<open>None\<close>, so that the next tick runs
  the entry logic. The cancellation of the resting order is requested exactly
  when the two prices differ.
\<close>

theorem execute_buy_open_reprices:
  assumes "active_order s = Some ao" and "ao \<noteq> []" and "\<not> in_position s" and "\<not> test_mode s"
    and "query_orders_info k [] ao = Inr details" and "details ao = Some info"
    and "status info = Some st" and "st \<noteq> ''closed''"
    and "calculate_target_price k s [QueryOrdersInfo ao] = (Inr new_target, tr1)"
    and "price info = Some current_price"
  shows "tr1 = [QueryOrdersInfo ao, GetOhlcData (pair (config s)) 60]
         \<and> (\<not> fne new_target current_price \<longrightarrow> execute k s = (s, tr1))
         \<and> (fne new_target current_price
              \<and> query_private_cancel k tr1 ao = Inr []
              \<and> add_standard_order k (tr1 @ [CancelOrder ao]) (pair (config s)) ''buy''
                   (volume (config s)) new_target False = Inr ack
             \<longrightarrow> execute k s =
                   (s\<lparr>active_order := None\<rparr>,
                    tr1 @ [CancelOrder ao,
                           AddStandardOrder (pair (config s)) ''buy'' (volume (config s))
                             new_target False])
                 \<and> (\<forall>k'. execute_body k' (fst (execute k s)) = entry_logic k' (fst (execute k s))))
         \<and> (CancelOrder ao \<in> set (snd (execute k s)) \<longleftrightarrow> fne new_target current_price)"
proof -
  have t: "tr1 = [QueryOrdersInfo ao, GetOhlcData (pair (config s)) 60]"
    using calculate_target_price_trace [OF assms(9)] by simp
  have a: "\<not> fne new_target current_price \<Longrightarrow> execute k s = (s, tr1)"
    using assms
    by (simp add: execute_def execute_body_def order_management_def get_order_details_def)
  have b: "execute k s =
             (s\<lparr>active_order := None\<rparr>,
              tr1 @ [CancelOrder ao,
                     AddStandardOrder (pair (config s)) ''buy'' (volume (config s))
                       new_target False])"
    if "fne new_target current_price" and "query_private_cancel k tr1 ao = Inr []"
      and "add_standard_order k (tr1 @ [CancelOrder ao]) (pair (config s)) ''buy''
             (volume (config s)) new_target False = Inr ack"
    using assms that
    by (simp add: execute_def execute_body_def order_management_def get_order_details_def
        update_limit_order_def cancel_order_def place_limit_order_def)
  have c: "execute_body k' (s\<lparr>active_order := None\<rparr>) = entry_logic k' (s\<lparr>active_order := None\<rparr>)"
    for k'
    using assms by (simp add: execute_body_def)
  have e: "CancelOrder ao \<in> set (snd (execute k s))" if "fne new_target current_price"
    using assms that
    by (simp add: execute_def execute_body_def order_management_def get_order_details_def
        update_limit_order_def cancel_order_def place_limit_order_def
        split: sum.splits)
  have f: "CancelOrder ao \<notin> set (snd (execute k s))" if "\<not> fne new_target current_price"
    using a [OF that] t by simp
  have g: "CancelOrder ao \<in> set (snd (execute k s)) \<longleftrightarrow> fne new_target current_price"
    using e f by blast
  have h: "tr1 = [QueryOrdersInfo ao, GetOhlcData (pair (config s)) 60]
         \<and> (\<not> fne new_target current_price \<longrightarrow> execute k s = (s, tr1))
         \<and> (fne new_target current_price
              \<and> query_private_cancel k tr1 ao = Inr []
              \<and> add_standard_order k (tr1 @ [CancelOrder ao]) (pair (config s)) ''buy''
                   (volume (config s)) new_target False = Inr ack
             \<longrightarrow> execute k s =
                   (s\<lparr>active_order := None\<rparr>,
                    tr1 @ [CancelOrder ao,
                           AddStandardOrder (pair (config s)) ''buy'' (volume (config s))
                             new_target False])
                 \<and> (\<forall>k'. execute_body k' (fst (execute k s)) = entry_logic k' (fst (execute k s))))"
    using t a b c by auto
  from h g show ?thesis by blast
qed

theorem execute_buy_open_reprices_witness:
  "fne (Num 96) (Num 95) \<and> \<not> fne (Num 96) (Num 96)
   \<and> execute (mock_kraken (replicate 26 100) (order_report ''open'' 95) (accepted ''BUY2''))
       buy_pending =
       (buy_pending\<lparr>active_order := None\<rparr>,
        [QueryOrdersInfo ''BUY1'', GetOhlcData ''XXBTZUSD'' 60, CancelOrder ''BUY1'',
         AddStandardOrder ''XXBTZUSD'' ''buy'' (1 / 1000) (Num 96) False])
   \<and> execute (mock_kraken (replicate 26 100) (order_report ''open'' 96) (accepted ''BUY2''))
       buy_pending =
       (buy_pending, [QueryOrdersInfo ''BUY1'', GetOhlcData ''XXBTZUSD'' 60])"
proof -
  let ?k = "\<lambda>p. mock_kraken (replicate 26 100) (order_report ''open'' p) (accepted ''BUY2'')"
  have c: "config buy_pending = mock_config"
    by (simp add: buy_pending_def)
  have h: "active_order buy_pending = Some ''BUY1''" "''BUY1'' \<noteq> []" "\<not> in_position buy_pending"
    "\<not> test_mode buy_pending"
    by (simp_all add: buy_pending_def)
  have q: "query_orders_info (?k p) [] ''BUY1'' = Inr (order_report ''open'' p)" for p
    by (simp add: mock_kraken_def)
  have i: "order_report ''open'' p ''BUY1'' = Some \<lparr>status = Some ''open'', price = Some (Num p)\<rparr>"
    for p
    by (simp add: order_report_def)
  have st: "status \<lparr>status = Some ''open'', price = Some (Num p)\<rparr> = Some ''open''"
    and pr: "price \<lparr>status = Some ''open'', price = Some (Num p)\<rparr> = Some (Num p)" for p
    by simp_all
  have ne: "''open'' \<noteq> ''closed''" by simp
  have t: "calculate_target_price (?k p) buy_pending [QueryOrdersInfo ''BUY1''] =
             (Inr (Num 96), [QueryOrdersInfo ''BUY1''] @ [GetOhlcData ''XXBTZUSD'' 60])" for p
    using c by (rule mock_target_price)
  note differs = execute_buy_open_reprices
    [OF h q i st ne t pr, of 95 "\<lparr>txid = Some [''BUY2'']\<rparr>"]
  note equal = execute_buy_open_reprices
    [OF h q i st ne t pr, of 96 "\<lparr>txid = Some [''BUY2'']\<rparr>"]
  have p: "pair (config buy_pending) = ''XXBTZUSD''" "volume (config buy_pending) = 1 / 1000"
    by (simp_all add: buy_pending_def mock_config_def)
  have ok: "query_private_cancel (?k 95) tr ''BUY1'' = Inr []"
    "add_standard_order (?k 95) tr' ''XXBTZUSD'' ''buy'' (1 / 1000) (Num 96) False =
       Inr \<lparr>txid = Some [''BUY2'']\<rparr>" for tr tr'
    by (simp_all add: mock_kraken_def accepted_def)
  show ?thesis
    using differs equal by (simp add: p ok)
qed

section \<open>Simulation mode\<close>

lemma execute_test_mode:
  assumes "test_mode s"
  shows "fst (execute k s) = s \<and> (\<forall>c \<in> set (snd (execute k s)). \<not> commits c)"
  using assms
  by (auto simp: execute_def execute_body_def entry_logic_def check_balance_for_order_def
      place_limit_order_def dest!: calculate_target_price_trace
      split: prod.splits sum.splits option.splits)

text \<open>
  C8. In simulation mode no number of ticks changes the strategy object, and none
  of the calls made is a live order, an order query or a cancellation. A tick
  from the idle state in which the target price is computed makes exactly two
  calls: the request for the price history and a validate-only buy order at the
  target price.
\<close>

theorem execute_test_mode_frame:
  assumes "test_mode s"
  shows "fst (trading_loop ks s) = s
         \<and> (\<forall>c \<in> set (snd (trading_loop ks s)). \<not> commits c)
         \<and> (\<not> in_position s \<and> \<not> truthy (active_order s)
              \<and> calculate_target_price k s [] = (Inr tp, tr1)
             \<longrightarrow> snd (execute k s) =
                   [GetOhlcData (pair (config s)) 60,
                    AddStandardOrder (pair (config s)) ''buy'' (volume (config s)) tp True])"
proof -
  have loop: "fst (trading_loop ks s) = s \<and> (\<forall>c \<in> set (snd (trading_loop ks s)). \<not> commits c)"
  proof (induction ks)
    case Nil
    show ?case by simp
  next
    case (Cons k' ks)
    with execute_test_mode [OF assms, of k'] show ?case
      by (auto split: prod.splits)
  qed
  have one: "snd (execute k s) =
               [GetOhlcData (pair (config s)) 60,
                AddStandardOrder (pair (config s)) ''buy'' (volume (config s)) tp True]"
    if "\<not> in_position s" and "\<not> truthy (active_order s)"
      and "calculate_target_price k s [] = (Inr tp, tr1)"
    using assms that calculate_target_price_trace [OF that(3)]
    by (simp add: execute_def execute_body_def entry_logic_def check_balance_for_order_def
        place_limit_order_def split: sum.splits)
  show ?thesis using loop one by blast
qed

theorem execute_test_mode_frame_witness:
  "test_mode (init_strategy mock_config True)
   \<and> fst (trading_loop
        [mock_kraken (replicate 26 100) no_orders validated,
         mock_kraken (replicate 26 100) no_orders validated]
        (init_strategy mock_config True)) = init_strategy mock_config True
   \<and> snd (execute (mock_kraken (replicate 26 100) no_orders validated)
        (init_strategy mock_config True)) =
       [GetOhlcData ''XXBTZUSD'' 60,
        AddStandardOrder ''XXBTZUSD'' ''buy'' (1 / 1000) (Num 96) True]"
proof -
  let ?k = "mock_kraken (replicate 26 100) no_orders validated"
  let ?s = "init_strategy mock_config True"
  have h: "test_mode ?s"
    by (simp add: init_strategy_def)
  have c: "config ?s = mock_config"
    by (simp add: init_strategy_def)
  have t: "calculate_target_price ?k ?s [] = (Inr (Num 96), [] @ [GetOhlcData ''XXBTZUSD'' 60])"
    using c by (rule mock_target_price)
  from execute_test_mode_frame [OF h, of "[?k, ?k]" ?k "Num 96" "[] @ [GetOhlcData ''XXBTZUSD'' 60]"] t h
  show ?thesis
    by (simp add: init_strategy_def mock_config_def)
qed

section \<open>The invariant of the trading state\<close>













section \<open>A sell order that fails\<close>

text \<open>
  C10. The strategy is live and holds the buy order \<open>ao\<close>. In a first tick the
  exchange reports the order closed and the placement of the sell order raises:
  the strategy is left with \<open>in_position\<close> set and \<open>ao\<close> still the active order.
  In a later tick in which the exchange again reports \<open>ao\<close> closed, the strategy
  clears \<open>active_order\<close>, \<open>entry_sma\<close> and \<open>in_position\<close> after a single order
  query: it is idle again and no sell order was ever accepted.
\<close>

theorem sell_failure_drops_position:
  assumes "active_order s = Some ao" and "ao \<noteq> []" and "\<not> in_position s" and "\<not> test_mode s"
    and "entry_sma s = Some e"
    and "query_orders_info k1 [] ao = Inr details1" and "details1 ao = Some info1"
    and "status info1 = Some ''closed''"
    and "add_standard_order k1 [QueryOrdersInfo ao] (pair (config s)) ''sell''
           (volume (config s)) (format_price e) False = Inl err"
    and "query_orders_info k2 [] ao = Inr details2" and "details2 ao = Some info2"
    and "status info2 = Some ''closed''"
  shows "execute_body k1 s =
           (Inl err, s\<lparr>in_position := True\<rparr>,
            [QueryOrdersInfo ao,
             AddStandardOrder (pair (config s)) ''sell'' (volume (config s)) (format_price e) False])
         \<and> execute k2 (fst (execute k1 s)) =
             (s\<lparr>in_position := False, active_order := None, entry_sma := None\<rparr>,
              [QueryOrdersInfo ao])"
proof -
  have 1: "execute_body k1 s =
           (Inl err, s\<lparr>in_position := True\<rparr>,
            [QueryOrdersInfo ao,
             AddStandardOrder (pair (config s)) ''sell'' (volume (config s)) (format_price e) False])"
    using assms(1-9)
    by (simp add: execute_body_def order_management_def get_order_details_def
        place_limit_order_def)
  then have 2: "fst (execute k1 s) = s\<lparr>in_position := True\<rparr>"
    by (simp add: execute_def)
  have 3: "execute k2 (s\<lparr>in_position := True\<rparr>) =
             (s\<lparr>in_position := False, active_order := None, entry_sma := None\<rparr>,
              [QueryOrdersInfo ao])"
    using assms(1,2,4,10-12)
    by (simp add: execute_def execute_body_def order_management_def get_order_details_def)
  show ?thesis using 1 2 3 by simp
qed

theorem sell_failure_drops_position_witness:
  "execute (mock_kraken (replicate 26 100) (order_report ''closed'' 96) unavailable)
     (fst (execute (mock_kraken (replicate 26 100) (order_report ''closed'' 96) unavailable)
        buy_pending)) =
     (buy_pending\<lparr>in_position := False, active_order := None, entry_sma := None\<rparr>,
      [QueryOrdersInfo ''BUY1''])
   \<and> fst (snd (execute_body
        (mock_kraken (replicate 26 100) (order_report ''closed'' 96) unavailable) buy_pending)) =
       buy_pending\<lparr>in_position := True\<rparr>"
proof -
  let ?k = "mock_kraken (replicate 26 100) (order_report ''closed'' 96) unavailable"
  have h: "active_order buy_pending = Some ''BUY1''" "''BUY1'' \<noteq> []" "\<not> in_position buy_pending"
    "\<not> test_mode buy_pending" "entry_sma buy_pending = Some (Num 100)"
    by (simp_all add: buy_pending_def)
  have q: "query_orders_info ?k [] ''BUY1'' = Inr (order_report ''closed'' 96)"
    by (simp add: mock_kraken_def)
  have i: "order_report ''closed'' 96 ''BUY1'' =
             Some \<lparr>status = Some ''closed'', price = Some (Num 96)\<rparr>"
    by (simp add: order_report_def)
  have st: "status \<lparr>status = Some ''closed'', price = Some (Num 96)\<rparr> = Some ''closed''"
    by simp
  have a: "add_standard_order ?k [QueryOrdersInfo ''BUY1''] (pair (config buy_pending)) ''sell''
             (volume (config buy_pending)) (format_price (Num 100)) False =
           Inl (ApiError ''EService:Unavailable'')"
    by (simp add: mock_kraken_def unavailable_def)
  from sell_failure_drops_position [OF h q i st a q i st] show ?thesis
    by simp
qed

end
